theory Spec2Isabelle
  imports Complex_Main
begin

section \<open>inPolygon: the ray-casting containment test of \<^verbatim>\<open>inPolygon.py\<close>\<close>

text \<open>
  The module has one function, \<^verbatim>\<open>contains(polyx, polyy, linex, liney)\<close>. It validates
  the polygon arguments, coerces the query arguments to arrays, classifies every query point
  by counting the polygon edges that a ray towards positive x crosses, and returns one
  boolean (two scalar query arguments) or an array of booleans.

  Coordinates are modelled as rationals. Every finite double is a rational, but the source
  computes in doubles: it rounds the query coordinates to doubles and rounds the result of
  every operation of the crossing test, where the model computes exactly. Model and source
  agree wherever these roundings change nothing, as at every input that is evaluated below
  (small integers and halves, on which each operation of line 83 is exact). The checks of
  the arguments, the shapes, the edges that the generator yields and the comparisons of the
  y-coordinates involve no rounding.
\<close>

subsection \<open>Values, errors and results\<close>

text \<open>
  An argument is either a single number, on which \<^verbatim>\<open>iter\<close> raises a TypeError, or a
  sequence of numbers (a list or a one-dimensional array).
\<close>

datatype pyarg = Scalar rat | Sequence "rat list"

text \<open>
  The exceptions of the function, with the messages of the source. IndexError is what an
  out-of-range subscript raises; ZeroDivisionError stands for a division by zero.
\<close>

datatype error =
    TypeError string
  | ValueError string
  | IndexError
  | ZeroDivisionError

text \<open>The returned mask: \<^verbatim>\<open>mask[0]\<close>, a single boolean, or the whole array.\<close>

datatype result = Single bool | Mask "bool list"

type_synonym point = "rat \<times> rat"
type_synonym edge = "point \<times> point"

subsection \<open>The comparison of line 40\<close>

text \<open>
  Line 40 reads \<^verbatim>\<open>if len != len(polyy):\<close>. Its left operand is the built-in function
  \<^verbatim>\<open>len\<close> itself, its right operand an integer. Python's \<^verbatim>\<open>!=\<close> between
  objects of these two types falls back to identity, so it answers True.
\<close>

datatype pyobj = Builtin_len | PyInt int

fun py_ne :: "pyobj \<Rightarrow> pyobj \<Rightarrow> bool" where
  "py_ne (PyInt a) (PyInt b) = (a \<noteq> b)"
| "py_ne Builtin_len Builtin_len = False"
| "py_ne Builtin_len (PyInt b) = True"
| "py_ne (PyInt a) Builtin_len = True"

subsection \<open>The handler for single-value and array query arguments (lines 46 to 64)\<close>

text \<open>
  \<^verbatim>\<open>
  single_val = True
  try: iter(linex)
  except TypeError: linex = np.asarray([linex],dtype=float)
  else: linex = np.asarray(linex,dtype=float); single_val = False
  \<close>
  The second component is the value of \<^verbatim>\<open>single_val\<close> after the block.
  \<^verbatim>\<open>np.asarray(..., dtype=float)\<close> rounds every element to the nearest double;
  \<open>as_array\<close> keeps the element as it is, which is the same for an element that is a
  double. The length of the array does not depend on it.
\<close>

fun as_array :: "pyarg \<Rightarrow> bool \<Rightarrow> rat list \<times> bool" where
  "as_array (Scalar v) single_val = ([v], single_val)"
| "as_array (Sequence vs) single_val = (vs, False)"

definition query_arrays :: "pyarg \<Rightarrow> pyarg \<Rightarrow> error + (rat list \<times> rat list \<times> bool)" where
  "query_arrays linex liney =
     (case as_array linex True of (xs, single_val) \<Rightarrow>
      case as_array liney single_val of (ys, single_val) \<Rightarrow>
        if length xs \<noteq> length ys
        then Inl (ValueError ''linex, liney must be of same shape'')
        else Inr (xs, ys, single_val))"

subsection \<open>The generator of edges (lines 67 to 75)\<close>

text \<open>
  \<^verbatim>\<open>lines()\<close> starts from the last vertex and yields, for every element of
  \<^verbatim>\<open>polyx\<close>, the pair of the previous vertex and the current one. The subscripts
  \<^verbatim>\<open>polyx[-1]\<close>, \<^verbatim>\<open>polyy[-1]\<close> and \<^verbatim>\<open>polyy[i]\<close> raise IndexError out of
  range; the generator then ends with that error.
\<close>

fun lines_from :: "point \<Rightarrow> rat list \<Rightarrow> rat list \<Rightarrow> (error + edge) list" where
  "lines_from p0 [] polyy = []"
| "lines_from p0 (x # polyx) [] = [Inl IndexError]"
| "lines_from p0 (x # polyx) (y # polyy) = Inr (p0, (x, y)) # lines_from (x, y) polyx polyy"

definition lines :: "rat list \<Rightarrow> rat list \<Rightarrow> (error + edge) list" where
  "lines polyx polyy =
     (if polyx = [] \<or> polyy = [] then [Inl IndexError]
      else lines_from (last polyx, last polyy) polyx polyy)"

subsection \<open>The crossing test (lines 77 to 85)\<close>

text \<open>
  The division of line 83. In the source it is a division of doubles: the quotient is
  rounded, and a zero divisor would give an infinity or a NaN with a warning. \<open>py_div\<close> is
  the exact quotient, and it marks a zero divisor by ZeroDivisionError, so that a theorem can
  say that the loop never divides by zero.
\<close>

definition py_div :: "rat \<Rightarrow> rat \<Rightarrow> error + rat" where
  "py_div a b = (if b = 0 then Inl ZeroDivisionError else Inr (a / b))"

text \<open>
  The condition of line 83. Python's \<^verbatim>\<open>and\<close> evaluates its right operand, and so the
  division, only when the left operand is true. The left operand compares doubles, which
  is exact. The right operand is computed exactly here and with a rounding after each of
  its operations in the source, so for a query point within rounding distance of an
  edge the two can answer differently.
\<close>

definition crosses :: "edge \<Rightarrow> rat \<Rightarrow> rat \<Rightarrow> error + bool" where
  "crosses e x y =
     (case e of (p0, p1) \<Rightarrow>
       if (snd p0 > y) \<noteq> (snd p1 > y)
       then (case py_div ((fst p1 - fst p0) * (y - snd p0)) (snd p1 - snd p0) of
               Inl err \<Rightarrow> Inl err
             | Inr q \<Rightarrow> Inr (x < q + fst p0))
       else Inr False)"

text \<open>The inner loop over the generator, with \<^verbatim>\<open>result\<close> as its state.\<close>

fun edge_loop :: "(error + edge) list \<Rightarrow> rat \<Rightarrow> rat \<Rightarrow> bool \<Rightarrow> error + bool" where
  "edge_loop [] x y result = Inr result"
| "edge_loop (Inl err # es) x y result = Inl err"
| "edge_loop (Inr e # es) x y result =
     (case crosses e x y of
        Inl err \<Rightarrow> Inl err
      | Inr c \<Rightarrow> edge_loop es x y (if c then \<not> result else result))"

definition point_result :: "rat list \<Rightarrow> rat list \<Rightarrow> rat \<Rightarrow> rat \<Rightarrow> error + bool" where
  "point_result polyx polyy x y = edge_loop (lines polyx polyy) x y False"

text \<open>
  The outer loop, \<^verbatim>\<open>for i,x in enumerate(linex): y = liney[i] ...\<close>, filling the mask
  from its first element on.
\<close>

fun mask_loop :: "rat list \<Rightarrow> rat list \<Rightarrow> rat list \<Rightarrow> rat list \<Rightarrow> error + bool list" where
  "mask_loop polyx polyy [] ys = Inr []"
| "mask_loop polyx polyy (x # xs) [] = Inl IndexError"
| "mask_loop polyx polyy (x # xs) (y # ys) =
     (case point_result polyx polyy x y of
        Inl err \<Rightarrow> Inl err
      | Inr b \<Rightarrow> (case mask_loop polyx polyy xs ys of
                    Inl err \<Rightarrow> Inl err
                  | Inr bs \<Rightarrow> Inr (b # bs)))"

text \<open>The recast of lines 88 to 91.\<close>

definition recast :: "bool \<Rightarrow> bool list \<Rightarrow> error + result" where
  "recast single_val msk =
     (if single_val
      then (case msk of [] \<Rightarrow> Inl IndexError | b # bs \<Rightarrow> Inr (Single b))
      else Inr (Mask msk))"

text \<open>Everything after the checks of the polygon: lines 45 to 91.\<close>

definition classify :: "rat list \<Rightarrow> rat list \<Rightarrow> pyarg \<Rightarrow> pyarg \<Rightarrow> error + result" where
  "classify polyx polyy linex liney =
     (case query_arrays linex liney of
        Inl err \<Rightarrow> Inl err
      | Inr (xs, ys, single_val) \<Rightarrow>
          (case mask_loop polyx polyy xs ys of
             Inl err \<Rightarrow> Inl err
           | Inr msk \<Rightarrow> recast single_val msk))"

subsection \<open>The function\<close>

text \<open>
  Lines 33 to 43 check the polygon, in this order: both arguments are iterable; the
  comparison of line 40; at least three elements in \<^verbatim>\<open>polyx\<close>.
  \<open>vertex_count_check\<close> is the function from line 42 on.
\<close>

definition vertex_count_check :: "rat list \<Rightarrow> rat list \<Rightarrow> pyarg \<Rightarrow> pyarg \<Rightarrow> error + result" where
  "vertex_count_check polyx polyy linex liney =
     (if length polyx < 3
      then Inl (ValueError ''polygon must consist of at least three points'')
      else classify polyx polyy linex liney)"

fun contains :: "pyarg \<Rightarrow> pyarg \<Rightarrow> pyarg \<Rightarrow> pyarg \<Rightarrow> error + result" where
  "contains (Sequence polyx) (Sequence polyy) linex liney =
     (if py_ne Builtin_len (PyInt (int (length polyy)))
      then Inl (ValueError ''polyx, poly must be of same size'')
      else vertex_count_check polyx polyy linex liney)"
| "contains polyx polyy linex liney = Inl (TypeError ''polyx, polyy must be iterable'')"

subsection \<open>The crossing test in the words of the specification\<close>

text \<open>
  Three definitions that follow the specification instead of the source, to compare the
  loops with. \<open>spec_toggles\<close> is the condition under which an edge toggles the parity
  flag: exactly one of \<open>y0 > y\<close>, \<open>y1 > y\<close> holds and \<open>x\<close> is strictly less than
  the interpolated crossing. \<open>spec_edges\<close> pairs vertex \<open>(i - 1 + N) mod N\<close> with vertex
  \<open>i\<close> for \<open>i\<close> from \<open>0\<close> to \<open>N - 1\<close>. \<open>spec_crossings\<close> counts the edges that
  toggle.
\<close>

definition spec_toggles :: "edge \<Rightarrow> rat \<Rightarrow> rat \<Rightarrow> bool" where
  "spec_toggles e x y =
     (case e of (p0, p1) \<Rightarrow>
        (snd p0 > y) \<noteq> (snd p1 > y) \<and>
        x < (fst p1 - fst p0) * (y - snd p0) / (snd p1 - snd p0) + fst p0)"

definition spec_edges :: "point list \<Rightarrow> edge list" where
  "spec_edges vs =
     map (\<lambda>i. (vs ! ((i + length vs - 1) mod length vs), vs ! i)) [0..<length vs]"

definition spec_crossings :: "edge list \<Rightarrow> rat \<Rightarrow> rat \<Rightarrow> nat" where
  "spec_crossings es x y = length (filter (\<lambda>e. spec_toggles e x y) es)"

section \<open>Properties\<close>

subsection \<open>The checks of the polygon\<close>

lemma py_ne_len: "py_ne Builtin_len (PyInt n)"
  by simp

lemma contains_Sequence:
  "contains (Sequence polyx) (Sequence polyy) linex liney =
     Inl (ValueError ''polyx, poly must be of same size'')"
  by simp

subsection \<open>The edges and the parity of the crossings\<close>

lemma crosses_toggles: "crosses e x y = Inr (spec_toggles e x y)"
  by (auto simp: crosses_def spec_toggles_def py_div_def split: prod.splits)

lemma edge_loop_Inr:
  "edge_loop (map Inr es) x y r = Inr (r \<noteq> odd (spec_crossings es x y))"
  by (induction es arbitrary: r) (auto simp: crosses_toggles spec_crossings_def)

lemma edge_loop_error: "edge_loop es x y r = Inl err \<Longrightarrow> Inl err \<in> set es"
proof (induction es arbitrary: r)
  case Nil
  then show ?case by simp
next
  case (Cons e es)
  then show ?case by (cases e) (auto simp: crosses_toggles)
qed

lemma lines_from_error: "Inl err \<in> set (lines_from p0 polyx polyy) \<Longrightarrow> err = IndexError"
  by (induction p0 polyx polyy rule: lines_from.induct) auto

lemma lines_error: "Inl err \<in> set (lines polyx polyy) \<Longrightarrow> err = IndexError"
  by (auto simp: lines_def dest: lines_from_error split: if_splits)

lemma point_result_error: "point_result polyx polyy x y = Inl err \<Longrightarrow> err = IndexError"
  unfolding point_result_def by (blast dest: edge_loop_error lines_error)

lemma mask_loop_error: "mask_loop polyx polyy xs ys = Inl err \<Longrightarrow> err = IndexError"
  by (induction polyx polyy xs ys rule: mask_loop.induct)
    (auto split: sum.splits dest: point_result_error)

lemma mask_loop_length:
  "mask_loop polyx polyy xs ys = Inr bs \<Longrightarrow> length bs = length xs"
  by (induction polyx polyy xs ys arbitrary: bs rule: mask_loop.induct)
    (auto split: sum.splits)

lemma lines_from_eq:
  "length xs = length ys \<Longrightarrow>
   lines_from p0 xs ys = map Inr (zip (p0 # zip xs ys) (zip xs ys))"
  by (induction xs ys arbitrary: p0 rule: list_induct2) auto

lemma spec_edges_zip: "vs \<noteq> [] \<Longrightarrow> spec_edges vs = zip (last vs # vs) vs"
proof (rule nth_equalityI)
  show "length (spec_edges vs) = length (zip (last vs # vs) vs)"
    by (simp add: spec_edges_def)
next
  fix i
  assume ne: "vs \<noteq> []" and "i < length (spec_edges vs)"
  then have i: "i < length vs" by (simp add: spec_edges_def)
  show "spec_edges vs ! i = zip (last vs # vs) vs ! i"
  proof (cases i)
    case 0
    with i ne show ?thesis by (simp add: spec_edges_def last_conv_nth)
  next
    case (Suc j)
    with i have "(i + length vs - 1) mod length vs = j" by simp
    with i Suc show ?thesis by (simp add: spec_edges_def)
  qed
qed

text \<open>
  With as many y-coordinates as x-coordinates, the generator yields the edges of the
  specification: one per vertex, the first from the last vertex to the first.
\<close>

lemma lines_spec_edges:
  assumes "length polyx = length polyy" and "polyx \<noteq> []"
  shows "lines polyx polyy = map Inr (spec_edges (zip polyx polyy))"
proof -
  from assms have ne: "zip polyx polyy \<noteq> []" by (cases polyx; cases polyy) auto
  from assms have "polyy \<noteq> []" by auto
  with assms have l: "last (zip polyx polyy) = (last polyx, last polyy)"
    by (simp add: last_zip)
  show ?thesis
    using assms ne by (auto simp: lines_def lines_from_eq spec_edges_zip l)
qed

text \<open>The inner loop returns the parity of the number of edges that toggle.\<close>

lemma point_result_parity:
  assumes "length polyx = length polyy" and "polyx \<noteq> []"
  shows "point_result polyx polyy x y
       = Inr (odd (spec_crossings (spec_edges (zip polyx polyy)) x y))"
  using assms by (simp add: point_result_def lines_spec_edges edge_loop_Inr)

subsection \<open>The result of the code after the checks of the polygon\<close>

lemma mask_loop_map:
  assumes "length polyx = length polyy" and "polyx \<noteq> []" and "length xs = length ys"
  shows "mask_loop polyx polyy xs ys =
     Inr (map (\<lambda>(x, y). odd (spec_crossings (spec_edges (zip polyx polyy)) x y)) (zip xs ys))"
  using assms(3)
  by (induction xs ys rule: list_induct2) (simp_all add: point_result_parity assms(1,2))

text \<open>Two scalars give the flag of the one point, as a single boolean.\<close>

lemma classify_scalars:
  assumes "length polyx = length polyy" and "polyx \<noteq> []"
  shows "classify polyx polyy (Scalar x) (Scalar y) =
     Inr (Single (odd (spec_crossings (spec_edges (zip polyx polyy)) x y)))"
  using assms by (simp add: classify_def query_arrays_def point_result_parity recast_def)

text \<open>Two sequences of one length give the flags of the points, in their order.\<close>

lemma classify_sequences:
  assumes "length polyx = length polyy" and "polyx \<noteq> []" and "length xs = length ys"
  shows "classify polyx polyy (Sequence xs) (Sequence ys) =
     Inr (Mask (map (\<lambda>(x, y). odd (spec_crossings (spec_edges (zip polyx polyy)) x y))
                 (zip xs ys)))"
  using assms by (simp add: classify_def query_arrays_def mask_loop_map recast_def)

text \<open>
  Lines 45 to 91 raise the error of line 64 exactly when the two arrays differ in length:
  two sequences of different lengths, or a scalar, which becomes an array of one element,
  with a sequence whose length is not 1.
\<close>

lemma classify_shape_error:
  "classify polyx polyy (Scalar a) (Scalar b) \<noteq>
     Inl (ValueError ''linex, liney must be of same shape'') \<and>
   (classify polyx polyy (Scalar a) (Sequence ys) =
      Inl (ValueError ''linex, liney must be of same shape'') \<longleftrightarrow> length ys \<noteq> 1) \<and>
   (classify polyx polyy (Sequence xs) (Scalar b) =
      Inl (ValueError ''linex, liney must be of same shape'') \<longleftrightarrow> length xs \<noteq> 1) \<and>
   (classify polyx polyy (Sequence xs) (Sequence ys) =
      Inl (ValueError ''linex, liney must be of same shape'') \<longleftrightarrow> length xs \<noteq> length ys)"
proof -
  have m: "mask_loop polyx polyy us vs \<noteq> Inl (ValueError s)" for us vs s
    using mask_loop_error [of polyx polyy us vs "ValueError s"] by auto
  have r: "recast sv bs \<noteq> Inl (ValueError s)" for sv bs s
    by (simp add: recast_def split: list.splits)
  have q: "classify polyx polyy linex liney = Inl (ValueError ''linex, liney must be of same shape'')
      \<longleftrightarrow> query_arrays linex liney = Inl (ValueError ''linex, liney must be of same shape'')"
    for linex liney
    using m r by (auto simp: classify_def split: sum.splits prod.splits)
  show ?thesis
    unfolding q by (auto simp: query_arrays_def)
qed

section \<open>The claims\<close>

text \<open>
  Claim C1: for every query point and every valid polygon, \<^verbatim>\<open>contains\<close> walks the N
  closed edges of the N vertices, toggles a parity flag that starts at false for every
  edge that straddles the height of the point and crosses it strictly to the right, and
  returns the final flag.

  The code does not: the comparison of line 40 is true for every polygon, so the call
  raises the ValueError of line 41 before any edge is walked. For the triangle
  (0,0), (2,0), (0,2) and the point (1/2, 1/2) the call raises, while the loop of lines
  77 to 85, run on the same input, ends with the flag true. (Lemma
  \<open>point_result_parity\<close> shows that the loop computes the flag of the claim for every
  polygon with as many y-coordinates as x-coordinates.)
\<close>

theorem C1_flag_not_returned:
  "contains (Sequence [0, 2, 0]) (Sequence [0, 0, 2]) (Scalar (1/2)) (Scalar (1/2)) =
     Inl (ValueError ''polyx, poly must be of same size'') \<and>
   point_result [0, 2, 0] [0, 0, 2] (1/2) (1/2) = Inr True"
  by (simp add: classify_def query_arrays_def point_result_def lines_def crosses_def
      py_div_def recast_def)

text \<open>
  Claim C2: when \<^verbatim>\<open>polyx\<close> and \<^verbatim>\<open>polyy\<close> are iterable and differ in length,
  \<^verbatim>\<open>contains\<close> fails with the ValueError \<^verbatim>\<open>polyx, poly must be of same size\<close> (the
  DimensionMismatch of the specification), whatever the query arguments are and before
  anything is computed from them.
\<close>

theorem C2_polygon_length_mismatch:
  "length polyx \<noteq> length polyy \<Longrightarrow>
   contains (Sequence polyx) (Sequence polyy) linex liney =
     Inl (ValueError ''polyx, poly must be of same size'')"
  by simp

theorem C2_polygon_length_mismatch_witness:
  "length [0, 4, 4 :: rat] \<noteq> length [0, 0 :: rat] \<and>
   contains (Sequence [0, 4, 4]) (Sequence [0, 0]) (Scalar 2) (Scalar 2) =
     Inl (ValueError ''polyx, poly must be of same size'')"
proof -
  have h: "length [0, 4, 4 :: rat] \<noteq> length [0, 0 :: rat]" by simp
  show ?thesis
    using h C2_polygon_length_mismatch [OF h, of "Scalar 2" "Scalar 2"] by simp
qed


text \<open>
  Claim C4: two scalar query arguments give a single boolean, and a sequence of K points
  gives K booleans in the order of the points.

  The code gives neither: both calls raise the ValueError of line 41. Lines 45 to 91, run
  on the same inputs, return the single boolean and the two booleans of the claim. (Lemmas
  \<open>classify_scalars\<close> and \<open>classify_sequences\<close> show it for every input.)
\<close>

theorem C4_no_result_shape:
  "contains (Sequence [0, 4, 4, 0]) (Sequence [0, 0, 4, 4]) (Scalar 1) (Scalar 3) =
     Inl (ValueError ''polyx, poly must be of same size'') \<and>
   contains (Sequence [0, 4, 4, 0]) (Sequence [0, 0, 4, 4]) (Sequence [1, 6]) (Sequence [3, 1]) =
     Inl (ValueError ''polyx, poly must be of same size'') \<and>
   classify [0, 4, 4, 0] [0, 0, 4, 4] (Scalar 1) (Scalar 3) = Inr (Single True) \<and>
   classify [0, 4, 4, 0] [0, 0, 4, 4] (Sequence [1, 6]) (Sequence [3, 1]) =
     Inr (Mask [True, False])"
  by (simp add: classify_def query_arrays_def point_result_def lines_def crosses_def
      py_div_def recast_def)

text \<open>
  Claim C5: a polygon whose \<^verbatim>\<open>polyx\<close> has fewer than three elements fails with the
  ValueError \<^verbatim>\<open>polygon must consist of at least three points\<close> (the
  InsufficientVertices of the specification).

  The code raises another error for the two vertices (0,0), (1,1): the ValueError of line
  41, since the comparison of line 40 comes first and is true. The check of lines 42 and
  43, run on the same input, raises the error of the claim.
\<close>

theorem C5_two_vertices:
  "contains (Sequence [0, 1]) (Sequence [0, 1]) (Scalar 0) (Scalar 0) =
     Inl (ValueError ''polyx, poly must be of same size'') \<and>
   contains (Sequence [0, 1]) (Sequence [0, 1]) (Scalar 0) (Scalar 0) \<noteq>
     Inl (ValueError ''polygon must consist of at least three points'') \<and>
   vertex_count_check [0, 1] [0, 1] (Scalar 0) (Scalar 0) =
     Inl (ValueError ''polygon must consist of at least three points'')"
  by (simp add: vertex_count_check_def)

text \<open>
  Claim C6: in the loop of the crossing test the division by \<open>p1.y - p0.y\<close> is evaluated
  only for an edge that straddles the height \<open>y\<close>, and for such an edge \<open>p0.y\<close> and
  \<open>p1.y\<close> differ, so no division by zero occurs: an edge that does not straddle gives
  False without a division; for an edge that straddles the division has a result; and
  neither the test of one edge, nor the loop over the edges, nor the loop over the query
  points, nor the whole of lines 45 to 91 ends with ZeroDivisionError.
\<close>

theorem C6_no_division_by_zero:
  "(\<not> ((snd pa > y) \<noteq> (snd pb > y)) \<longrightarrow> crosses (pa, pb) x y = Inr False) \<and>
   ((snd pa > y) \<noteq> (snd pb > y) \<longrightarrow>
      snd pa \<noteq> snd pb \<and>
      py_div ((fst pb - fst pa) * (y - snd pa)) (snd pb - snd pa) =
        Inr ((fst pb - fst pa) * (y - snd pa) / (snd pb - snd pa))) \<and>
   crosses (pa, pb) x y \<noteq> Inl ZeroDivisionError \<and>
   point_result polyx polyy x y \<noteq> Inl ZeroDivisionError \<and>
   mask_loop polyx polyy xs ys \<noteq> Inl ZeroDivisionError \<and>
   classify polyx polyy linex liney \<noteq> Inl ZeroDivisionError"
proof (intro conjI impI)
  assume "\<not> ((snd pa > y) \<noteq> (snd pb > y))"
  then show "crosses (pa, pb) x y = Inr False"
    by (simp add: crosses_def)
next
  assume "(snd pa > y) \<noteq> (snd pb > y)"
  then show "snd pa \<noteq> snd pb" by auto
next
  assume "(snd pa > y) \<noteq> (snd pb > y)"
  then have "snd pb - snd pa \<noteq> 0" by auto
  then show "py_div ((fst pb - fst pa) * (y - snd pa)) (snd pb - snd pa) =
        Inr ((fst pb - fst pa) * (y - snd pa) / (snd pb - snd pa))"
    by (simp add: py_div_def)
next
  show "crosses (pa, pb) x y \<noteq> Inl ZeroDivisionError"
    by (simp add: crosses_toggles)
next
  show "point_result polyx polyy x y \<noteq> Inl ZeroDivisionError"
    using point_result_error [of polyx polyy x y ZeroDivisionError] by auto
next
  show "mask_loop polyx polyy xs ys \<noteq> Inl ZeroDivisionError"
    using mask_loop_error [of polyx polyy xs ys ZeroDivisionError] by auto
next
  have "mask_loop polyx polyy xs ys \<noteq> Inl ZeroDivisionError" for xs ys
    using mask_loop_error [of polyx polyy xs ys ZeroDivisionError] by auto
  then show "classify polyx polyy linex liney \<noteq> Inl ZeroDivisionError"
    by (auto simp: classify_def query_arrays_def recast_def
        split: sum.splits prod.splits if_splits list.splits)
qed

theorem C6_no_division_by_zero_witness:
  "(4 > (2::rat)) \<noteq> (0 > (2::rat)) \<and>
   py_div ((0 - 4) * (2 - 4)) (0 - 4) = Inr (- 2) \<and>
   crosses ((4, 4), (0, 0)) 1 2 = Inr True \<and>
   crosses ((4, 4), (0, 4)) 1 2 = Inr False"
  using C6_no_division_by_zero [where pa = "(4, 4)" and pb = "(0, 0)" and x = 1 and y = 2]
    C6_no_division_by_zero [where pa = "(4, 4)" and pb = "(0, 4)" and x = 1 and y = 2]
  by (simp add: crosses_def)

text \<open>
  Claim C7: calling \<^verbatim>\<open>contains\<close> with \<^verbatim>\<open>polyx\<close> and \<^verbatim>\<open>polyy\<close> both reversed gives
  the same containment results as calling it with the original order.

  The code gives no containment result in either order: for the triangle (0,0), (4,0),
  (0,4) and the points (1,1), (5,1), the call with the vertices in this order and the call
  with them reversed both raise the ValueError of line 41. Lines 45 to 91, run on the same
  inputs, return [True, False] in both orders.
\<close>

theorem C7_no_results_to_compare:
  "contains (Sequence [0, 4, 0]) (Sequence [0, 0, 4]) (Sequence [1, 5]) (Sequence [1, 1]) =
     Inl (ValueError ''polyx, poly must be of same size'') \<and>
   contains (Sequence (rev [0, 4, 0])) (Sequence (rev [0, 0, 4])) (Sequence [1, 5]) (Sequence [1, 1]) =
     Inl (ValueError ''polyx, poly must be of same size'') \<and>
   classify [0, 4, 0] [0, 0, 4] (Sequence [1, 5]) (Sequence [1, 1]) = Inr (Mask [True, False]) \<and>
   classify (rev [0, 4, 0]) (rev [0, 0, 4]) (Sequence [1, 5]) (Sequence [1, 1]) =
     Inr (Mask [True, False])"
  by (simp add: classify_def query_arrays_def point_result_def lines_def crosses_def
      py_div_def recast_def)

text \<open>
  Claim C8: the i-th element of the result for a sequence of query points equals the
  single boolean that \<^verbatim>\<open>contains\<close> returns for the i-th point alone.

  The code returns no result to compare: for the triangle (0,0), (10,0), (5,10), the call
  with the points (5,5), (0,10) and the call with the point (5,5) alone both raise the
  ValueError of line 41. Lines 45 to 91, run on the same inputs, return [True, False] for
  the two points and True and False for each alone.
\<close>

theorem C8_no_pointwise_results:
  "contains (Sequence [0, 10, 5]) (Sequence [0, 0, 10]) (Sequence [5, 0]) (Sequence [5, 10]) =
     Inl (ValueError ''polyx, poly must be of same size'') \<and>
   contains (Sequence [0, 10, 5]) (Sequence [0, 0, 10]) (Scalar 5) (Scalar 5) =
     Inl (ValueError ''polyx, poly must be of same size'') \<and>
   classify [0, 10, 5] [0, 0, 10] (Sequence [5, 0]) (Sequence [5, 10]) = Inr (Mask [True, False]) \<and>
   classify [0, 10, 5] [0, 0, 10] (Scalar 5) (Scalar 5) = Inr (Single True) \<and>
   classify [0, 10, 5] [0, 0, 10] (Scalar 0) (Scalar 10) = Inr (Single False)"
  by (simp add: classify_def query_arrays_def point_result_def lines_def crosses_def
      py_div_def recast_def)

text \<open>
  Claim C9: for the square (0,0), (4,0), (4,4), (0,4), \<^verbatim>\<open>contains\<close> returns true for
  (2,2) and false for (5,5); for the triangle (0,0), (10,0), (5,10) and the points (5,5),
  (0,10), (5,1) it returns [true, false, true].

  The code raises the ValueError of line 41 in all three calls. Lines 45 to 91, run on the
  same inputs, return the values of the claim.
\<close>

theorem C9_examples_raise:
  "contains (Sequence [0, 4, 4, 0]) (Sequence [0, 0, 4, 4]) (Scalar 2) (Scalar 2) =
     Inl (ValueError ''polyx, poly must be of same size'') \<and>
   contains (Sequence [0, 4, 4, 0]) (Sequence [0, 0, 4, 4]) (Scalar 5) (Scalar 5) =
     Inl (ValueError ''polyx, poly must be of same size'') \<and>
   contains (Sequence [0, 10, 5]) (Sequence [0, 0, 10]) (Sequence [5, 0, 5]) (Sequence [5, 10, 1]) =
     Inl (ValueError ''polyx, poly must be of same size'') \<and>
   classify [0, 4, 4, 0] [0, 0, 4, 4] (Scalar 2) (Scalar 2) = Inr (Single True) \<and>
   classify [0, 4, 4, 0] [0, 0, 4, 4] (Scalar 5) (Scalar 5) = Inr (Single False) \<and>
   classify [0, 10, 5] [0, 0, 10] (Sequence [5, 0, 5]) (Sequence [5, 10, 1]) =
     Inr (Mask [True, False, True])"
  by (simp add: classify_def query_arrays_def point_result_def lines_def crosses_def
      py_div_def recast_def)

text \<open>
  Claim C10: for the square (0,0), (4,0), (4,4), (0,4) and the query point (0,0), on a
  vertex, \<^verbatim>\<open>contains\<close> returns true: the edge from (0,0) to (4,0) does not toggle, the
  edge from (4,0) to (4,4) toggles, and the edge from (0,4) to (0,0) does not.

  The code raises the ValueError of line 41. The generator and the test of line 83 behave
  on the four edges as the claim says, and lines 45 to 91 return true.
\<close>

theorem C10_vertex_query_raises:
  "contains (Sequence [0, 4, 4, 0]) (Sequence [0, 0, 4, 4]) (Scalar 0) (Scalar 0) =
     Inl (ValueError ''polyx, poly must be of same size'') \<and>
   lines [0, 4, 4, 0] [0, 0, 4, 4] =
     [Inr ((0, 4), (0, 0)), Inr ((0, 0), (4, 0)), Inr ((4, 0), (4, 4)), Inr ((4, 4), (0, 4))] \<and>
   crosses ((0, 4), (0, 0)) 0 0 = Inr False \<and>
   crosses ((0, 0), (4, 0)) 0 0 = Inr False \<and>
   crosses ((4, 0), (4, 4)) 0 0 = Inr True \<and>
   crosses ((4, 4), (0, 4)) 0 0 = Inr False \<and>
   classify [0, 4, 4, 0] [0, 0, 4, 4] (Scalar 0) (Scalar 0) = Inr (Single True)"
  by (simp add: classify_def query_arrays_def point_result_def lines_def crosses_def
      py_div_def recast_def)

end
